theory Spec2Isabelle
  imports Main "HOL-Library.Char_ord" "HOL-Library.List_Lexorder" "HOL-Library.Sublist"
begin

section \<open>Values read from the AST dump\<close>

text \<open>
  \<^verbatim>\<open>a.py\<close> reads \<^verbatim>\<open>a.json\<close> with \<^verbatim>\<open>json.load\<close>, so every value it touches is
  \<^verbatim>\<open>None\<close>, a bool, an int, a float, a str, a list or a dict with str keys. Strings are
  byte lists (UTF-8): the prefixes tested are ASCII, and the byte-wise lexicographic order
  of UTF-8 is the order of the code points that Python's \<^verbatim>\<open>sorted\<close> uses. The script
  never looks inside a float, so its representation is a type parameter. A dict is the
  list of its members as they stand in the document; \<^verbatim>\<open>json.load\<close> keeps the last
  value of a repeated key.
\<close>

datatype 'f json =
    JNull
  | JBool bool
  | JInt int
  | JFloat 'f
  | JStr string
  | JArr "'f json list"
  | JObj "(string \<times> 'f json) list"

datatype error = KeyError | IndexError | TypeError | AttributeError | ValueError

definition dict_lookup :: "(string \<times> 'f json) list \<Rightarrow> string \<Rightarrow> 'f json option" where
  "dict_lookup kvs k = map_of (rev kvs) k"

definition dict_keys :: "(string \<times> 'f json) list \<Rightarrow> string list" where
  "dict_keys kvs = rev (remdups (rev (map fst kvs)))"

text \<open>\<^verbatim>\<open>x.get(k, d)\<close>: only a dict has the method.\<close>

fun py_get :: "'f json \<Rightarrow> string \<Rightarrow> 'f json \<Rightarrow> error + 'f json" where
  "py_get (JObj kvs) k d = Inr (case dict_lookup kvs k of None \<Rightarrow> d | Some v \<Rightarrow> v)"
| "py_get _ k d = Inl AttributeError"

text \<open>\<^verbatim>\<open>x[k]\<close> with a str key \<open>k\<close>.\<close>

fun py_getitem :: "'f json \<Rightarrow> string \<Rightarrow> error + 'f json" where
  "py_getitem (JObj kvs) k = (case dict_lookup kvs k of None \<Rightarrow> Inl KeyError | Some v \<Rightarrow> Inr v)"
| "py_getitem _ k = Inl TypeError"

text \<open>
  \<^verbatim>\<open>x[0]\<close>. A dict read from JSON has no int key. A non-empty str gives its first
  character, itself a str (here: its first byte; every use below subscripts the result
  with a str key, which fails on any str alike).
\<close>

fun py_first :: "'f json \<Rightarrow> error + 'f json" where
  "py_first (JArr []) = Inl IndexError"
| "py_first (JArr (x # xs)) = Inr x"
| "py_first (JStr []) = Inl IndexError"
| "py_first (JStr (c # cs)) = Inr (JStr [c])"
| "py_first (JObj kvs) = Inl KeyError"
| "py_first _ = Inl TypeError"

text \<open>
  The values a \<^verbatim>\<open>for\<close> loop runs over: the elements of a list, the keys of a dict, the
  characters of a str (each a str again; here one per byte, and the loops below fail alike
  on the first of them).
\<close>

fun py_iter :: "'f json \<Rightarrow> error + 'f json list" where
  "py_iter (JArr xs) = Inr xs"
| "py_iter (JObj kvs) = Inr (map JStr (dict_keys kvs))"
| "py_iter (JStr s) = Inr (map (\<lambda>c. JStr [c]) s)"
| "py_iter _ = Inl TypeError"

text \<open>\<^verbatim>\<open>len(x)\<close>; the script only compares it with 0.\<close>

fun py_len :: "'f json \<Rightarrow> error + nat" where
  "py_len (JArr xs) = Inr (length xs)"
| "py_len (JObj kvs) = Inr (length (dict_keys kvs))"
| "py_len (JStr s) = Inr (length s)"
| "py_len _ = Inl TypeError"

section \<open>The method classifier (\<^verbatim>\<open>a.py\<close>)\<close>

record buckets =
  zmanim_methods :: "string set"
  zmanim_calc_methods :: "string set"
  other_methods :: "string set"

definition empty_buckets :: buckets where
  "empty_buckets = \<lparr>zmanim_methods = {}, zmanim_calc_methods = {}, other_methods = {}\<rparr>"

text \<open>
  The two tests made on one modifier. Python's \<^verbatim>\<open>and\<close> evaluates its right operand only
  when the left one holds, so \<^verbatim>\<open>typeName\<close> is read only on a marker annotation.
\<close>

definition modifier_is_public :: "'f json \<Rightarrow> error + bool" where
  "modifier_is_public modifier =
     (case py_get modifier ''node'' (JStr '''') of
        Inl e \<Rightarrow> Inl e
      | Inr nd \<Rightarrow>
          if nd = JStr ''Modifier'' then
            (case py_get modifier ''keyword'' (JStr '''') of
               Inl e \<Rightarrow> Inl e
             | Inr kw \<Rightarrow> Inr (kw = JStr ''public''))
          else Inr False)"

definition modifier_is_deprecated :: "'f json \<Rightarrow> error + bool" where
  "modifier_is_deprecated modifier =
     (case py_get modifier ''node'' (JStr '''') of
        Inl e \<Rightarrow> Inl e
      | Inr nd \<Rightarrow>
          if nd = JStr ''MarkerAnnotation'' then
            (case py_get modifier ''typeName'' (JObj []) of
               Inl e \<Rightarrow> Inl e
             | Inr tn \<Rightarrow>
                 (case py_get tn ''identifier'' (JStr '''') of
                    Inl e \<Rightarrow> Inl e
                  | Inr ident \<Rightarrow> Inr (ident = JStr ''Deprecated'')))
          else Inr False)"

text \<open>
  The loop over the modifiers (lines 22 to 33), from the value of \<^verbatim>\<open>is_public\<close> so far
  to the pair \<^verbatim>\<open>(is_public, is_deprecated)\<close> at its end; the \<^verbatim>\<open>break\<close> leaves the
  remaining modifiers unread.
\<close>

fun scan_modifiers :: "'f json list \<Rightarrow> bool \<Rightarrow> error + (bool \<times> bool)" where
  "scan_modifiers [] is_public = Inr (is_public, False)"
| "scan_modifiers (modifier # rest) is_public =
     (case modifier_is_public modifier of
        Inl e \<Rightarrow> Inl e
      | Inr p \<Rightarrow>
          (case modifier_is_deprecated modifier of
             Inl e \<Rightarrow> Inl e
           | Inr d \<Rightarrow>
               if d then Inr (is_public \<or> p, True)
               else scan_modifiers rest (is_public \<or> p)))"

text \<open>The test of lines 38 to 41 on a return type that is present and not \<^verbatim>\<open>None\<close>.\<close>

definition returns_Date :: "'f json \<Rightarrow> error + bool" where
  "returns_Date rt =
     (case py_get rt ''node'' (JStr '''') of
        Inl e \<Rightarrow> Inl e
      | Inr nd \<Rightarrow>
          if nd = JStr ''SimpleType'' then
            (case py_get rt ''name'' (JObj []) of
               Inl e \<Rightarrow> Inl e
             | Inr nm \<Rightarrow>
                 (case py_get nm ''identifier'' (JStr '''') of
                    Inl e \<Rightarrow> Inl e
                  | Inr ident \<Rightarrow> Inr (ident = JStr ''Date'')))
          else Inr False)"

text \<open>\<^verbatim>\<open>i.get("name", {}).get("identifier", "")\<close>, which must be a str for \<^verbatim>\<open>startswith\<close>.\<close>

definition declared_name :: "'f json \<Rightarrow> error + string" where
  "declared_name i =
     (case py_get i ''name'' (JObj []) of
        Inl e \<Rightarrow> Inl e
      | Inr nm \<Rightarrow>
          (case py_get nm ''identifier'' (JStr '''') of
             Inl e \<Rightarrow> Inl e
           | Inr (JStr s) \<Rightarrow> Inr s
           | Inr _ \<Rightarrow> Inl AttributeError))"

text \<open>Lines 36 to 48, for a public declaration that is not deprecated.\<close>

definition route_by_type :: "'f json \<Rightarrow> string \<Rightarrow> buckets \<Rightarrow> error + buckets" where
  "route_by_type i name b =
     (case py_get i ''returnType2'' JNull of
        Inl e \<Rightarrow> Inl e
      | Inr rt \<Rightarrow>
          if rt = JNull then Inr b
          else
            (case returns_Date rt of
               Inl e \<Rightarrow> Inl e
             | Inr is_date \<Rightarrow>
                 if is_date then
                   (case py_get i ''parameters'' (JArr [JInt 1]) of
                      Inl e \<Rightarrow> Inl e
                    | Inr ps \<Rightarrow>
                        (case py_len ps of
                           Inl e \<Rightarrow> Inl e
                         | Inr n \<Rightarrow>
                             if n = 0
                             then Inr (b\<lparr>zmanim_calc_methods := insert name (zmanim_calc_methods b)\<rparr>)
                             else Inr (b\<lparr>zmanim_methods := insert name (zmanim_methods b)\<rparr>)))
                 else Inr (b\<lparr>other_methods := insert name (other_methods b)\<rparr>)))"

text \<open>Lines 16 to 35, then the routing: the loop body after the name has been read.\<close>

definition filter_and_route :: "'f json \<Rightarrow> string \<Rightarrow> buckets \<Rightarrow> error + buckets" where
  "filter_and_route i name b =
     (case py_getitem i ''node'' of
        Inl e \<Rightarrow> Inl e
      | Inr nd \<Rightarrow>
          if nd \<noteq> JStr ''MethodDeclaration'' then Inr b
          else
            (case py_get i ''modifiers'' (JArr []) of
               Inl e \<Rightarrow> Inl e
             | Inr mods \<Rightarrow>
                 (case py_iter mods of
                    Inl e \<Rightarrow> Inl e
                  | Inr ms \<Rightarrow>
                      (case scan_modifiers ms False of
                         Inl e \<Rightarrow> Inl e
                       | Inr (is_public, is_deprecated) \<Rightarrow>
                           if \<not> is_public \<or> is_deprecated then Inr b
                           else route_by_type i name b))))"

text \<open>Lines 14 and 15: the name without a leading \<^verbatim>\<open>get\<close>.\<close>

definition canonical_name :: "string \<Rightarrow> string" where
  "canonical_name name = (if prefix ''get'' name then drop 3 name else name)"

text \<open>One pass of the loop of lines 10 to 48; \<^verbatim>\<open>continue\<close> returns the buckets as they are.\<close>

definition classify_declaration :: "'f json \<Rightarrow> buckets \<Rightarrow> error + buckets" where
  "classify_declaration i b =
     (case declared_name i of
        Inl e \<Rightarrow> Inl e
      | Inr name \<Rightarrow>
          if prefix ''set'' name then Inr b
          else filter_and_route i (canonical_name name) b)"

fun classify_declarations :: "'f json list \<Rightarrow> buckets \<Rightarrow> error + buckets" where
  "classify_declarations [] b = Inr b"
| "classify_declarations (i # rest) b =
     (case classify_declaration i b of
        Inl e \<Rightarrow> Inl e
      | Inr b' \<Rightarrow> classify_declarations rest b')"

text \<open>\<^verbatim>\<open>data["types"][0]["bodyDeclarations"]\<close>, as the sequence the loop runs over.\<close>

definition body_declarations :: "'f json \<Rightarrow> error + 'f json list" where
  "body_declarations data =
     (case py_getitem data ''types'' of
        Inl e \<Rightarrow> Inl e
      | Inr ts \<Rightarrow>
          (case py_first ts of
             Inl e \<Rightarrow> Inl e
           | Inr t \<Rightarrow>
               (case py_getitem t ''bodyDeclarations'' of
                  Inl e \<Rightarrow> Inl e
                | Inr ds \<Rightarrow> py_iter ds)))"

definition classify :: "'f json \<Rightarrow> error + buckets" where
  "classify data =
     (case body_declarations data of
        Inl e \<Rightarrow> Inl e
      | Inr ds \<Rightarrow> classify_declarations ds empty_buckets)"

text \<open>
  Lines 50 to 56. \<^verbatim>\<open>sorted\<close> turns each set into the ascending list of its elements;
  the standard output is modelled as the list of the lines printed, one per \<^verbatim>\<open>print\<close>.
\<close>

record sorted_buckets =
  zmanim_methods_sorted :: "string list"
  zmanim_calc_methods_sorted :: "string list"
  other_methods_sorted :: "string list"

definition sort_buckets :: "buckets \<Rightarrow> sorted_buckets" where
  "sort_buckets b =
     \<lparr>zmanim_methods_sorted = sorted_list_of_set (zmanim_methods b),
      zmanim_calc_methods_sorted = sorted_list_of_set (zmanim_calc_methods b),
      other_methods_sorted = sorted_list_of_set (other_methods b)\<rparr>"

definition print_enum :: "sorted_buckets \<Rightarrow> string list" where
  "print_enum sb =
     [''pub enum Calculations {'']
       @ map (\<lambda>i. ''    '' @ i @ '','') (zmanim_methods_sorted sb)
       @ [''}'']"

definition a_py :: "'f json \<Rightarrow> error + string list" where
  "a_py data =
     (case classify data of
        Inl e \<Rightarrow> Inl e
      | Inr b \<Rightarrow> Inr (print_enum (sort_buckets b)))"

section \<open>The declaration emitter (\<^verbatim>\<open>schema.py\<close>)\<close>

text \<open>
  The pydantic models. The field \<^verbatim>\<open>value\<close> is called \<open>val\<close> here (\<open>value\<close> is a
  reserved word). \<^verbatim>\<open>Constant.type\<close> holds a Python class: the three the emitter knows,
  or any other class, given by its name.
\<close>

record EnumMember =
  name :: string
  val :: int

record Enum =
  name :: string
  members :: "EnumMember list"

record TransliteratedEnumMember =
  name :: string
  transliterated_name :: string
  val :: int

datatype py_type = PyFloat | PyInt | PyDatetime | PyOther string

record Constant =
  name :: string
  type :: py_type
  val :: string

text \<open>
  The module-level tables are data, so the emitters take them as arguments; so is
  \<^verbatim>\<open>pascalcase\<close>, a function of the library \<^verbatim>\<open>caseconverter\<close>.
\<close>

record tables =
  ENUMS :: "Enum list"
  PARSHAS :: "TransliteratedEnumMember list"
  JEWISH_HOLIDAYS :: "TransliteratedEnumMember list"
  DAY_OF_WEEKS :: "TransliteratedEnumMember list"
  HEBREW_MONTHS :: "TransliteratedEnumMember list"
  YEAR_LENGTH_TYPES :: "TransliteratedEnumMember list"
  BAVLI_TRACTATES :: "TransliteratedEnumMember list"
  YERUSHALMI_TRACTATES :: "TransliteratedEnumMember list"

abbreviation nl :: string where
  "nl \<equiv> [CHR 0x0A]"

text \<open>\<^verbatim>\<open>str\<close> of an int, as an f-string renders \<^verbatim>\<open>{member.value}\<close>.\<close>

fun str_nat :: "nat \<Rightarrow> string" where
  "str_nat n =
     (if n < 10 then [''0123456789'' ! n]
      else str_nat (n div 10) @ [''0123456789'' ! (n mod 10)])"

declare str_nat.simps [simp del]

definition str_int :: "int \<Rightarrow> string" where
  "str_int i = (if i < 0 then ''-'' @ str_nat (nat (- i)) else str_nat (nat i))"

fun type_to_rust :: "py_type \<Rightarrow> error + string" where
  "type_to_rust PyFloat = Inr ''f64''"
| "type_to_rust PyInt = Inr ''i64''"
| "type_to_rust PyDatetime = Inr ''DateTime<Utc>''"
| "type_to_rust (PyOther t) = Inl ValueError"

text \<open>The triple-quoted text both commands start their buffer with.\<close>

definition prelude :: string where
  "prelude =
     nl @ ''    use chrono::{DateTime, Utc};'' @ nl
        @ ''    use num_enum::{IntoPrimitive, TryFromPrimitive};'' @ nl
        @ ''    ''"

definition derive_line :: string where
  "derive_line =
     ''#[derive(Debug, PartialEq, Eq, Clone, Copy, IntoPrimitive, TryFromPrimitive)]'' @ nl"

definition repr_line :: string where
  "repr_line = ''#[repr(i64)]'' @ nl"

text \<open>
  The parameter \<^verbatim>\<open>name\<close> is written \<open>name'\<close>, \<open>name\<close> being the field of the records.
\<close>

definition transliterated_enums_to_rust ::
  "(string \<Rightarrow> string) \<Rightarrow> string \<Rightarrow> TransliteratedEnumMember list \<Rightarrow> string" where
  \<open>transliterated_enums_to_rust pascalcase name' enums =
     (let impl_buffer = ''impl '' @ name' @ '' {'' @ nl;
          impl_buffer = impl_buffer @ ''pub fn en_string(&self) -> &str { match self {'';
          impl_buffer =
            foldl (\<lambda>impl_buffer member.
                     impl_buffer @ ''    '' @ name' @ ''::'' @ pascalcase (transliterated_name member)
                       @ '' => "'' @ transliterated_name member @ ''",'' @ nl)
              impl_buffer enums;
          impl_buffer = impl_buffer @ ''}}'' @ nl;
          impl_buffer = impl_buffer @ ''pub fn he_string(&self) -> &str { match self {'';
          impl_buffer =
            foldl (\<lambda>impl_buffer member.
                     impl_buffer @ ''    '' @ name' @ ''::'' @ pascalcase (transliterated_name member)
                       @ '' => "'' @ TransliteratedEnumMember.name member @ ''",'' @ nl)
              impl_buffer enums;
          impl_buffer = impl_buffer @ ''}}'' @ nl;
          impl_buffer = impl_buffer @ ''}'' @ nl;
          buffer = [];
          buffer = buffer @ derive_line;
          buffer = buffer @ repr_line;
          buffer = buffer @ ''pub enum '' @ name' @ '' {'' @ nl;
          buffer =
            foldl (\<lambda>buffer enum.
                     buffer @ ''    '' @ pascalcase (transliterated_name enum) @ '' = ''
                       @ str_int (TransliteratedEnumMember.val enum) @ '','' @ nl)
              buffer enums;
          buffer = buffer @ ''}'' @ nl
      in buffer @ impl_buffer)\<close>

text \<open>
  \<^verbatim>\<open>constants\<close>: the text one record adds to the buffer (lines 498 to 501), the loop,
  and the command. The result is the text written to the output file; an exception
  leaves the command before the file is opened.
\<close>

definition constant_line :: "Constant \<Rightarrow> error + string" where
  "constant_line constant =
     (if type constant = PyDatetime then
        Inr (''pub static _'' @ Constant.name constant
               @ '': DateTime<Utc> = DateTime::from_timestamp_millis('' @ Constant.val constant
               @ '').unwrap();'' @ nl)
      else
        (case type_to_rust (type constant) of
           Inl e \<Rightarrow> Inl e
         | Inr t \<Rightarrow>
             Inr (''pub static _'' @ Constant.name constant @ '': '' @ t @ '' = ''
                    @ Constant.val constant @ '';'' @ nl)))"

fun constants_loop :: "Constant list \<Rightarrow> string \<Rightarrow> error + string" where
  "constants_loop [] buffer = Inr buffer"
| "constants_loop (constant # rest) buffer =
     (case constant_line constant of
        Inl e \<Rightarrow> Inl e
      | Inr line \<Rightarrow> constants_loop rest (buffer @ line))"

definition constants :: "Constant list \<Rightarrow> error + string" where
  "constants CONSTANTS = constants_loop CONSTANTS prelude"

text \<open>
  \<^verbatim>\<open>enums\<close>: the text written to the output file, and the line printed afterwards.
\<close>

definition plain_enum_to_rust :: "(string \<Rightarrow> string) \<Rightarrow> string \<Rightarrow> Enum \<Rightarrow> string" where
  "plain_enum_to_rust pascalcase buffer enum =
     (let buffer = buffer @ derive_line;
          buffer = buffer @ repr_line;
          buffer = buffer @ ''pub enum _'' @ pascalcase (Enum.name enum) @ '' {'' @ nl;
          buffer =
            foldl (\<lambda>buffer member.
                     buffer @ ''    '' @ pascalcase (EnumMember.name member) @ '' = ''
                       @ str_int (EnumMember.val member) @ '','' @ nl)
              buffer (members enum)
      in buffer @ ''}'' @ nl)"

definition enums :: "(string \<Rightarrow> string) \<Rightarrow> tables \<Rightarrow> string \<times> string list" where
  "enums pascalcase t =
     (let buffer = prelude;
          buffer = foldl (plain_enum_to_rust pascalcase) buffer (ENUMS t);
          buffer = buffer @ transliterated_enums_to_rust pascalcase ''Parsha'' (PARSHAS t);
          buffer = buffer @ transliterated_enums_to_rust pascalcase ''JewishHoliday'' (JEWISH_HOLIDAYS t);
          buffer = buffer @ transliterated_enums_to_rust pascalcase ''DayOfWeek'' (DAY_OF_WEEKS t);
          buffer = buffer @ transliterated_enums_to_rust pascalcase ''JewishMonth'' (HEBREW_MONTHS t);
          buffer = buffer @ transliterated_enums_to_rust pascalcase ''YearLengthType'' (YEAR_LENGTH_TYPES t);
          buffer = buffer @ transliterated_enums_to_rust pascalcase ''BavliTractate'' (BAVLI_TRACTATES t);
          buffer = buffer @ transliterated_enums_to_rust pascalcase ''YerushalmiTractate'' (YERUSHALMI_TRACTATES t)
      in (buffer,
          [''You must manually make the he_string and en_string methods on JewishMonth factor in the leap year (Adar I during leap year or just plain Adar otherwise)'']))"

section \<open>Shapes of AST nodes, for stating the properties\<close>

text \<open>The member \<open>k\<close> of a node, when the node is a dict that has one.\<close>

fun field :: "'f json \<Rightarrow> string \<Rightarrow> 'f json option" where
  "field (JObj kvs) k = dict_lookup kvs k"
| "field _ k = None"

text \<open>The node without its member \<open>k\<close>.\<close>

fun without_field :: "string \<Rightarrow> 'f json \<Rightarrow> 'f json" where
  "without_field k (JObj kvs) = JObj (filter (\<lambda>kv. fst kv \<noteq> k) kvs)"
| "without_field k v = v"

text \<open>
  The modifier shapes of the data model: the keyword \<^verbatim>\<open>public\<close>, and the marker
  annotation whose type name is \<^verbatim>\<open>Deprecated\<close>.
\<close>

definition public_modifier_node :: "'f json \<Rightarrow> bool" where
  "public_modifier_node m =
     (field m ''node'' = Some (JStr ''Modifier'') \<and> field m ''keyword'' = Some (JStr ''public''))"

definition deprecated_marker_node :: "'f json \<Rightarrow> bool" where
  "deprecated_marker_node m =
     (field m ''node'' = Some (JStr ''MarkerAnnotation'') \<and>
      (case field m ''typeName'' of
         Some tn \<Rightarrow> field tn ''identifier'' = Some (JStr ''Deprecated'')
       | None \<Rightarrow> False))"

text \<open>A return type that is the simple type named \<^verbatim>\<open>Date\<close>.\<close>

definition Date_type_node :: "'f json \<Rightarrow> bool" where
  "Date_type_node rt =
     (field rt ''node'' = Some (JStr ''SimpleType'') \<and>
      (case field rt ''name'' of
         Some nm \<Rightarrow> field nm ''identifier'' = Some (JStr ''Date'')
       | None \<Rightarrow> False))"

text \<open>
  Well-shaped nodes: every member that is present has the kind of value the data model
  gives it. Nothing is said about members that are absent.
\<close>

fun is_dict :: "'f json \<Rightarrow> bool" where
  "is_dict (JObj kvs) = True"
| "is_dict _ = False"

fun is_str :: "'f json \<Rightarrow> bool" where
  "is_str (JStr s) = True"
| "is_str _ = False"

fun is_list :: "'f json \<Rightarrow> bool" where
  "is_list (JArr xs) = True"
| "is_list _ = False"

definition absent_or :: "('f json \<Rightarrow> bool) \<Rightarrow> 'f json option \<Rightarrow> bool" where
  "absent_or P v = (case v of None \<Rightarrow> True | Some x \<Rightarrow> P x)"

definition wf_name :: "'f json \<Rightarrow> bool" where
  "wf_name nm = (is_dict nm \<and> absent_or is_str (field nm ''identifier''))"

definition wf_modifier :: "'f json \<Rightarrow> bool" where
  "wf_modifier m = (is_dict m \<and> absent_or is_dict (field m ''typeName''))"

fun wf_modifiers :: "'f json \<Rightarrow> bool" where
  "wf_modifiers (JArr ms) = list_all wf_modifier ms"
| "wf_modifiers _ = False"

definition wf_return_type :: "'f json \<Rightarrow> bool" where
  "wf_return_type rt = (rt = JNull \<or> (is_dict rt \<and> absent_or is_dict (field rt ''name'')))"

definition wf_declaration :: "'f json \<Rightarrow> bool" where
  "wf_declaration d =
     (is_dict d \<and>
      absent_or wf_name (field d ''name'') \<and>
      absent_or wf_modifiers (field d ''modifiers'') \<and>
      absent_or wf_return_type (field d ''returnType2'') \<and>
      absent_or is_list (field d ''parameters''))"

text \<open>
  A declaration that passes steps 1 to 6 of the filtering pipeline: its name does not
  start with \<^verbatim>\<open>set\<close>, it is a method declaration, its modifiers are a list of modifier
  nodes with a \<^verbatim>\<open>public\<close> one and no deprecated marker, and it has a return type.
\<close>

definition passes_pipeline :: "'f json \<Rightarrow> bool" where
  "passes_pipeline d =
     ((case declared_name d of Inl e \<Rightarrow> False | Inr n \<Rightarrow> \<not> prefix ''set'' n) \<and>
      field d ''node'' = Some (JStr ''MethodDeclaration'') \<and>
      (case field d ''modifiers'' of
         Some (JArr ms) \<Rightarrow>
           list_all wf_modifier ms \<and> list_ex public_modifier_node ms
             \<and> \<not> list_ex deprecated_marker_node ms
       | _ \<Rightarrow> False) \<and>
      (case field d ''returnType2'' of None \<Rightarrow> False | Some rt \<Rightarrow> rt \<noteq> JNull))"

text \<open>A declaration that line 12 skips: its name starts with \<^verbatim>\<open>set\<close>.\<close>

definition set_named :: "'f json \<Rightarrow> bool" where
  "set_named d = (case declared_name d of Inl e \<Rightarrow> False | Inr n \<Rightarrow> prefix ''set'' n)"

text \<open>The name under which the classifier files a declaration.\<close>

definition filed_name :: "'f json \<Rightarrow> string" where
  "filed_name d = (case declared_name d of Inl e \<Rightarrow> [] | Inr n \<Rightarrow> canonical_name n)"

text \<open>
  One bucket state extends another: no name is removed, and finite buckets stay finite.
\<close>

definition grows :: "buckets \<Rightarrow> buckets \<Rightarrow> bool" where
  "grows b b' =
     (zmanim_methods b \<subseteq> zmanim_methods b' \<and>
      zmanim_calc_methods b \<subseteq> zmanim_calc_methods b' \<and>
      other_methods b \<subseteq> other_methods b' \<and>
      (finite (zmanim_methods b) \<longrightarrow> finite (zmanim_methods b')) \<and>
      (finite (zmanim_calc_methods b) \<longrightarrow> finite (zmanim_calc_methods b')) \<and>
      (finite (other_methods b) \<longrightarrow> finite (other_methods b')))"

subsection \<open>Example nodes\<close>

definition public_modifier :: "unit json" where
  "public_modifier = JObj [(''node'', JStr ''Modifier''), (''keyword'', JStr ''public'')]"

definition protected_modifier :: "unit json" where
  "protected_modifier = JObj [(''node'', JStr ''Modifier''), (''keyword'', JStr ''protected'')]"

definition deprecated_marker :: "unit json" where
  "deprecated_marker =
     JObj [(''node'', JStr ''MarkerAnnotation''),
           (''typeName'', JObj [(''node'', JStr ''SimpleName''), (''identifier'', JStr ''Deprecated'')])]"

definition simple_type :: "string \<Rightarrow> unit json" where
  "simple_type n =
     JObj [(''node'', JStr ''SimpleType''),
           (''name'', JObj [(''node'', JStr ''SimpleName''), (''identifier'', JStr n)])]"

definition method_declaration ::
  "string \<Rightarrow> unit json list \<Rightarrow> unit json \<Rightarrow> unit json list \<Rightarrow> unit json" where
  "method_declaration n ms rt ps =
     JObj [(''node'', JStr ''MethodDeclaration''),
           (''name'', JObj [(''node'', JStr ''SimpleName''), (''identifier'', JStr n)]),
           (''modifiers'', JArr ms),
           (''returnType2'', rt),
           (''parameters'', JArr ps)]"

definition one_parameter :: "unit json" where
  "one_parameter =
     JObj [(''node'', JStr ''SingleVariableDeclaration''),
           (''name'', JObj [(''node'', JStr ''SimpleName''), (''identifier'', JStr ''degrees'')])]"

definition compilation_unit :: "unit json list \<Rightarrow> unit json" where
  "compilation_unit ds =
     JObj [(''node'', JStr ''CompilationUnit''),
           (''types'', JArr [JObj [(''node'', JStr ''TypeDeclaration''), (''bodyDeclarations'', JArr ds)]])]"

text \<open>A method declaration that has no \<^verbatim>\<open>modifiers\<close> member.\<close>

definition declaration_without_modifiers :: "unit json" where
  "declaration_without_modifiers =
     JObj [(''node'', JStr ''MethodDeclaration''),
           (''name'', JObj [(''node'', JStr ''SimpleName''), (''identifier'', JStr ''getSunrise'')]),
           (''returnType2'', simple_type ''Date''),
           (''parameters'', JArr [])]"

section \<open>Shapes of the emitted text, for stating the properties\<close>

text \<open>
  The declarations as the specification words them. A constant is one static declaration:
  a real is annotated \<^verbatim>\<open>f64\<close> and an integer \<^verbatim>\<open>i64\<close>, each with its literal as it stands;
  an instant is built from its literal as epoch milliseconds and unwrapped, which aborts
  when the value is out of range. An enumeration is a list of variants with their
  discriminants; a lookup function is a match whose body is its arms and nothing else.
\<close>

definition static_declaration :: "Constant \<Rightarrow> string" where
  "static_declaration c =
     (case type c of
        PyFloat \<Rightarrow>
          ''pub static _'' @ Constant.name c @ '': f64 = '' @ Constant.val c @ '';'' @ nl
      | PyInt \<Rightarrow>
          ''pub static _'' @ Constant.name c @ '': i64 = '' @ Constant.val c @ '';'' @ nl
      | PyDatetime \<Rightarrow>
          ''pub static _'' @ Constant.name c
            @ '': DateTime<Utc> = DateTime::from_timestamp_millis('' @ Constant.val c
            @ '').unwrap();'' @ nl
      | PyOther t \<Rightarrow> [])"

definition enum_declaration :: "string \<Rightarrow> (string \<times> int) list \<Rightarrow> string" where
  "enum_declaration type_name variants =
     derive_line @ repr_line @ ''pub enum '' @ type_name @ '' {'' @ nl
       @ concat (map (\<lambda>v. ''    '' @ fst v @ '' = '' @ str_int (snd v) @ '','' @ nl) variants)
       @ ''}'' @ nl"

definition match_arm :: "string \<Rightarrow> string \<Rightarrow> string \<Rightarrow> string" where
  \<open>match_arm type_name variant result =
     ''    '' @ type_name @ ''::'' @ variant @ '' => "'' @ result @ ''",'' @ nl\<close>

definition lookup_function :: "string \<Rightarrow> string list \<Rightarrow> string" where
  "lookup_function fn_name arms =
     ''pub fn '' @ fn_name @ ''(&self) -> &str { match self {'' @ concat arms @ ''}}'' @ nl"

subsection \<open>Example records\<close>

text \<open>Three records of the table \<^verbatim>\<open>CONSTANTS\<close>, and one with a type the emitter does not know.\<close>

definition EARTH_RADIUS :: Constant where
  "EARTH_RADIUS = \<lparr>Constant.name = ''EARTH_RADIUS'', type = PyFloat, val = ''6356.9''\<rparr>"

definition CHALAKIM_PER_DAY :: Constant where
  "CHALAKIM_PER_DAY = \<lparr>Constant.name = ''CHALAKIM_PER_DAY'', type = PyInt, val = ''25920''\<rparr>"

definition BAVLI_DAF_YOMI_START_DAY :: Constant where
  "BAVLI_DAF_YOMI_START_DAY =
     \<lparr>Constant.name = ''BAVLI_DAF_YOMI_START_DAY'', type = PyDatetime, val = ''-1461369600000''\<rparr>"

text \<open>
  The member \<^verbatim>\<open>Bo\<close> of the table \<^verbatim>\<open>PARSHAS\<close>; its native name is two Hebrew letters,
  four bytes in UTF-8.
\<close>

definition Bo :: TransliteratedEnumMember where
  "Bo = \<lparr>TransliteratedEnumMember.name = [CHR 0xD7, CHR 0x91, CHR 0xD7, CHR 0x90],
          transliterated_name = ''Bo'', val = 14\<rparr>"

definition untyped_constant :: Constant where
  "untyped_constant = \<lparr>Constant.name = ''LABEL'', type = PyOther ''str'', val = ''0''\<rparr>"

section \<open>Evaluation and shape lemmas\<close>

lemmas classifier_defs =
  a_py_def classify_def body_declarations_def classify_declaration_def declared_name_def
  canonical_name_def filter_and_route_def route_by_type_def returns_Date_def
  modifier_is_public_def modifier_is_deprecated_def dict_lookup_def empty_buckets_def
  sort_buckets_def print_enum_def

lemmas example_defs =
  compilation_unit_def method_declaration_def public_modifier_def deprecated_marker_def
  simple_type_def one_parameter_def

lemmas shape_defs =
  wf_declaration_def wf_name_def wf_modifier_def wf_return_type_def absent_or_def
  public_modifier_node_def deprecated_marker_node_def Date_type_node_def passes_pipeline_def
  set_named_def filed_name_def

lemma dict_lookup_Nil [simp]: "dict_lookup [] k = None"
  by (simp add: dict_lookup_def)

lemma is_dict_iff: "is_dict v \<longleftrightarrow> (\<exists>kvs. v = JObj kvs)"
  by (cases v) auto

lemma py_get_dict:
  "py_get v k d = Inr x \<longleftrightarrow> is_dict v \<and> x = (case field v k of None \<Rightarrow> d | Some y \<Rightarrow> y)"
  by (cases v) auto

lemma py_get_JObj:
  "is_dict v \<Longrightarrow> py_get v k d = Inr (case field v k of None \<Rightarrow> d | Some y \<Rightarrow> y)"
  by (cases v) auto

lemma modifier_is_deprecated_Inr:
  "modifier_is_deprecated m = Inr x \<Longrightarrow> x = deprecated_marker_node m"
  by (cases m) (auto simp: modifier_is_deprecated_def deprecated_marker_node_def py_get_dict
      split: sum.splits if_splits option.splits)

lemma modifier_is_public_Inr:
  "modifier_is_public m = Inr x \<Longrightarrow> x = public_modifier_node m"
  by (cases m) (auto simp: modifier_is_public_def public_modifier_node_def py_get_dict
      split: sum.splits if_splits option.splits)

lemma modifier_is_public_wf:
  "is_dict m \<Longrightarrow> modifier_is_public m = Inr (public_modifier_node m)"
  by (cases m) (auto simp: modifier_is_public_def public_modifier_node_def
      split: sum.splits if_splits option.splits)

lemma modifier_is_deprecated_wf:
  assumes "wf_modifier m"
  shows "modifier_is_deprecated m = Inr (deprecated_marker_node m)"
proof -
  from assms obtain kvs where m: "m = JObj kvs"
    by (auto simp: wf_modifier_def is_dict_iff)
  have tn: "is_dict (case field m ''typeName'' of None \<Rightarrow> JObj [] | Some y \<Rightarrow> y)"
    using assms by (auto simp: wf_modifier_def absent_or_def split: option.splits)
  show ?thesis
    using tn unfolding m
    by (auto simp: modifier_is_deprecated_def deprecated_marker_node_def py_get_JObj
        split: option.splits)
qed

lemma scan_modifiers_deprecated:
  "scan_modifiers ms p = Inr (q, d) \<Longrightarrow> d = list_ex deprecated_marker_node ms"
  by (induction ms arbitrary: p)
     (auto split: sum.splits if_splits dest: modifier_is_deprecated_Inr)

lemma scan_modifiers_public:
  "scan_modifiers ms p = Inr (q, False) \<Longrightarrow> q = (p \<or> list_ex public_modifier_node ms)"
  by (induction ms arbitrary: p)
     (auto split: sum.splits if_splits dest: modifier_is_public_Inr)

lemma scan_modifiers_wf:
  "list_all wf_modifier ms \<Longrightarrow> \<exists>q. scan_modifiers ms p = Inr (q, list_ex deprecated_marker_node ms)"
  by (induction ms arbitrary: p)
     (auto simp: modifier_is_deprecated_wf modifier_is_public_wf wf_modifier_def)

lemma declared_name_wf:
  assumes "is_dict d" and "absent_or wf_name (field d ''name'')"
  shows "\<exists>n. declared_name d = Inr n"
proof -
  let ?nm = "case field d ''name'' of None \<Rightarrow> JObj [] | Some y \<Rightarrow> y"
  have nm: "is_dict ?nm" and ident: "absent_or is_str (field ?nm ''identifier'')"
    using assms(2) by (auto simp: absent_or_def wf_name_def split: option.splits)
  let ?ident = "case field ?nm ''identifier'' of None \<Rightarrow> JStr [] | Some y \<Rightarrow> y"
  from ident have "is_str ?ident"
    by (auto simp: absent_or_def split: option.splits)
  then obtain s where "?ident = JStr s"
    by (cases ?ident) auto
  then have "declared_name d = Inr s"
    by (simp add: declared_name_def py_get_JObj assms(1) nm)
  then show ?thesis ..
qed

lemma returns_Date_wf:
  assumes "is_dict rt" and "absent_or is_dict (field rt ''name'')"
  shows "returns_Date rt = Inr (Date_type_node rt)"
proof -
  let ?nm = "case field rt ''name'' of None \<Rightarrow> JObj [] | Some y \<Rightarrow> y"
  have nm: "is_dict ?nm"
    using assms(2) by (auto simp: absent_or_def split: option.splits)
  from assms(1) obtain kvs where rt: "rt = JObj kvs"
    by (auto simp: is_dict_iff)
  show ?thesis
    using nm unfolding rt
    by (auto simp: returns_Date_def Date_type_node_def py_get_JObj split: option.splits)
qed

lemma py_len_list: "is_list ps \<Longrightarrow> \<exists>n. py_len ps = Inr n"
  by (cases ps) auto

lemma route_by_type_wf:
  assumes "wf_declaration d"
  shows "\<exists>b'. route_by_type d n b = Inr b'"
proof -
  have d: "is_dict d" using assms by (simp add: wf_declaration_def)
  let ?rt = "case field d ''returnType2'' of None \<Rightarrow> JNull | Some y \<Rightarrow> y"
  let ?ps = "case field d ''parameters'' of None \<Rightarrow> JArr [JInt 1] | Some y \<Rightarrow> y"
  have rt: "wf_return_type ?rt"
    using assms by (auto simp: wf_declaration_def absent_or_def wf_return_type_def split: option.splits)
  have "is_list ?ps"
    using assms by (auto simp: wf_declaration_def absent_or_def split: option.splits)
  then obtain k where k: "py_len ?ps = Inr k"
    using py_len_list by blast
  show ?thesis
  proof (cases "?rt = JNull")
    case True
    then show ?thesis by (simp add: route_by_type_def py_get_JObj d)
  next
    case False
    with rt have "returns_Date ?rt = Inr (Date_type_node ?rt)"
      by (simp add: wf_return_type_def returns_Date_wf)
    with False k show ?thesis
      by (simp add: route_by_type_def py_get_JObj d)
  qed
qed

lemma filter_and_route_wf:
  assumes "wf_declaration d" and "field d ''node'' \<noteq> None"
  shows "\<exists>b'. filter_and_route d n b = Inr b'"
proof -
  have d: "is_dict d" using assms by (simp add: wf_declaration_def)
  then obtain kvs where kvs: "d = JObj kvs" by (auto simp: is_dict_iff)
  from assms(2) obtain nd where nd: "py_getitem d ''node'' = Inr nd"
    unfolding kvs by auto
  let ?mods = "case field d ''modifiers'' of None \<Rightarrow> JArr [] | Some y \<Rightarrow> y"
  have "wf_modifiers ?mods"
    using assms(1) by (auto simp: wf_declaration_def absent_or_def split: option.splits)
  then obtain ms where ms: "?mods = JArr ms" and wf: "list_all wf_modifier ms"
    by (cases ?mods) auto
  from scan_modifiers_wf [OF wf, of False]
  obtain q where q: "scan_modifiers ms False = Inr (q, list_ex deprecated_marker_node ms)"
    by blast
  from route_by_type_wf [OF assms(1), of n b]
  obtain b' where "route_by_type d n b = Inr b'" ..
  then show ?thesis
    by (simp add: filter_and_route_def nd py_get_JObj d ms q)
qed

lemma filter_and_route_no_node:
  assumes "is_dict d" and "field d ''node'' = None"
  shows "filter_and_route d n b = Inl KeyError"
  using assms by (cases d) (auto simp: filter_and_route_def)

lemma classify_declaration_wf:
  assumes "wf_declaration d" and "field d ''node'' \<noteq> None"
  shows "\<exists>b'. classify_declaration d b = Inr b'"
proof -
  from assms(1) obtain n where "declared_name d = Inr n"
    using declared_name_wf by (auto simp: wf_declaration_def)
  then show ?thesis
    using filter_and_route_wf [OF assms] by (simp add: classify_declaration_def)
qed

lemma classify_declarations_append:
  "classify_declarations (xs @ ys) b =
     (case classify_declarations xs b of Inl e \<Rightarrow> Inl e | Inr b' \<Rightarrow> classify_declarations ys b')"
  by (induction xs arbitrary: b) (auto split: sum.splits)

lemma classify_declarations_wf:
  "list_all (\<lambda>d. wf_declaration d \<and> field d ''node'' \<noteq> None) ds \<Longrightarrow>
     \<exists>b'. classify_declarations ds b = Inr b'"
proof (induction ds arbitrary: b)
  case Nil
  then show ?case by simp
next
  case (Cons d ds)
  then obtain b1 where "classify_declaration d b = Inr b1"
    using classify_declaration_wf by fastforce
  with Cons show ?case by simp
qed

lemma field_without_field:
  "field (without_field k d) k' = (if k' = k then None else field d k')"
proof (cases d)
  case (JObj kvs)
  have "map_of (rev (filter (\<lambda>kv. fst kv \<noteq> k) kvs)) k' = (if k' = k then None else map_of (rev kvs) k')"
    by (induction kvs) (auto simp: map_add_def split: option.splits)
  then show ?thesis using JObj by (simp add: dict_lookup_def)
qed auto

lemma is_dict_without_field: "is_dict (without_field k d) = is_dict d"
  by (cases d) auto

lemma wf_declaration_without_field:
  "wf_declaration d \<Longrightarrow> wf_declaration (without_field k d)"
  by (auto simp: wf_declaration_def field_without_field absent_or_def is_dict_without_field)

lemma classify_declaration_no_node:
  assumes "wf_declaration d" and "field d ''node'' = None"
  shows "classify_declaration d b = (if set_named d then Inr b else Inl KeyError)"
proof -
  have d: "is_dict d" using assms(1) by (simp add: wf_declaration_def)
  from assms(1) obtain n where "declared_name d = Inr n"
    using declared_name_wf by (auto simp: wf_declaration_def)
  then show ?thesis
    using filter_and_route_no_node [OF d assms(2)]
    by (simp add: classify_declaration_def set_named_def)
qed

lemma classify_declaration_set_named:
  "set_named d \<Longrightarrow> classify_declaration d b = Inr b"
  by (auto simp: set_named_def classify_declaration_def split: sum.splits)

lemma classify_declarations_all_tagged:
  assumes "list_all wf_declaration ds"
    and "\<forall>d\<in>set ds. field d ''node'' \<noteq> None \<or> set_named d"
  shows "\<exists>b'. classify_declarations ds b = Inr b'"
  using assms
proof (induction ds arbitrary: b)
  case Nil
  then show ?case by simp
next
  case (Cons d ds)
  then have "\<exists>b1. classify_declaration d b = Inr b1"
    using classify_declaration_wf [of d b] classify_declaration_set_named [of d b] by auto
  then obtain b1 where "classify_declaration d b = Inr b1" ..
  with Cons show ?case by simp
qed

lemma classify_declarations_untagged:
  assumes "list_all wf_declaration ds"
    and "\<exists>d\<in>set ds. field d ''node'' = None \<and> \<not> set_named d"
  shows "classify_declarations ds b = Inl KeyError"
  using assms
proof (induction ds arbitrary: b)
  case Nil
  then show ?case by simp
next
  case (Cons d ds)
  show ?case
  proof (cases "field d ''node'' = None \<and> \<not> set_named d")
    case True
    with Cons.prems(1) show ?thesis
      by (simp add: classify_declaration_no_node)
  next
    case False
    with Cons.prems have rest: "\<exists>x\<in>set ds. field x ''node'' = None \<and> \<not> set_named x"
      and wf: "list_all wf_declaration ds" and wfd: "wf_declaration d"
      by auto
    from False wfd obtain b1 where "classify_declaration d b = Inr b1"
      using classify_declaration_wf [of d b] classify_declaration_set_named [of d b] by auto
    then show ?thesis
      using Cons.IH [OF wf rest] by simp
  qed
qed

lemma body_declarations_is_dict:
  "body_declarations data = Inr ds \<Longrightarrow> is_dict data"
  by (cases data) (auto simp: body_declarations_def)

lemma classify_without_types:
  assumes "is_dict data"
  shows "classify (without_field ''types'' data) = Inl KeyError"
proof -
  from assms obtain kvs where "data = JObj kvs" by (auto simp: is_dict_iff)
  then have "py_getitem (without_field ''types'' data) ''types'' = Inl KeyError"
    using field_without_field [of "''types''" data "''types''"] by simp
  then show ?thesis by (simp add: classify_def body_declarations_def)
qed


lemma field_Some_is_dict: "field d k = Some v \<Longrightarrow> is_dict d"
  by (cases d) auto

lemma py_getitem_field: "field d k = Some v \<Longrightarrow> py_getitem d k = Inr v"
  by (cases d) auto

lemma passes_pipeline_route:
  assumes "passes_pipeline d"
  shows "classify_declaration d b = route_by_type d (filed_name d) b"
proof -
  from assms obtain n where n: "declared_name d = Inr n" "\<not> prefix ''set'' n"
    by (auto simp: passes_pipeline_def split: sum.splits)
  from assms have node: "field d ''node'' = Some (JStr ''MethodDeclaration'')"
    by (simp add: passes_pipeline_def)
  then have d: "is_dict d" by (rule field_Some_is_dict)
  from assms obtain ms where ms: "field d ''modifiers'' = Some (JArr ms)"
    and wf: "list_all wf_modifier ms" and pub: "list_ex public_modifier_node ms"
    and dep: "\<not> list_ex deprecated_marker_node ms"
    by (auto simp: passes_pipeline_def split: option.splits json.splits)
  from scan_modifiers_wf [OF wf, of False] dep
  obtain q where q: "scan_modifiers ms False = Inr (q, False)" by auto
  from scan_modifiers_public [OF q] pub have "q" by simp
  with q have scan: "scan_modifiers ms False = Inr (True, False)" by simp
  show ?thesis
    by (simp add: classify_declaration_def n filed_name_def filter_and_route_def
        py_getitem_field [OF node] py_get_JObj d ms scan)
qed

lemma Date_type_node_returns:
  assumes "Date_type_node rt"
  shows "rt \<noteq> JNull \<and> returns_Date rt = Inr True"
proof -
  from assms have node: "field rt ''node'' = Some (JStr ''SimpleType'')"
    by (simp add: Date_type_node_def)
  then have rt: "is_dict rt" by (rule field_Some_is_dict)
  from assms obtain nm where nm: "field rt ''name'' = Some nm"
    and ident: "field nm ''identifier'' = Some (JStr ''Date'')"
    by (auto simp: Date_type_node_def split: option.splits)
  from ident have "is_dict nm" by (rule field_Some_is_dict)
  then have "returns_Date rt = Inr True"
    by (simp add: returns_Date_def py_get_JObj rt node nm ident)
  moreover from rt have "rt \<noteq> JNull" by auto
  ultimately show ?thesis by simp
qed

lemma route_by_type_Date:
  assumes "field d ''returnType2'' = Some rt" and "Date_type_node rt"
  shows "route_by_type d n b =
     (case py_len (case field d ''parameters'' of None \<Rightarrow> JArr [JInt 1] | Some ps \<Rightarrow> ps) of
        Inl e \<Rightarrow> Inl e
      | Inr k \<Rightarrow>
          if k = 0 then Inr (b\<lparr>zmanim_calc_methods := insert n (zmanim_calc_methods b)\<rparr>)
          else Inr (b\<lparr>zmanim_methods := insert n (zmanim_methods b)\<rparr>))"
  using Date_type_node_returns [OF assms(2)] field_Some_is_dict [OF assms(1)]
  by (simp add: route_by_type_def py_get_JObj assms(1))

lemma grows_refl: "grows b b"
  by (simp add: grows_def)

lemma grows_trans: "grows a b \<Longrightarrow> grows b c \<Longrightarrow> grows a c"
  by (auto simp: grows_def)

lemma route_by_type_grows: "route_by_type d n b = Inr b' \<Longrightarrow> grows b b'"
  by (auto simp: route_by_type_def grows_def split: sum.splits if_splits)

lemma filter_and_route_grows: "filter_and_route d n b = Inr b' \<Longrightarrow> grows b b'"
  by (auto simp: filter_and_route_def grows_refl split: sum.splits if_splits
      dest: route_by_type_grows)

lemma classify_declaration_grows: "classify_declaration d b = Inr b' \<Longrightarrow> grows b b'"
  by (auto simp: classify_declaration_def grows_refl split: sum.splits if_splits
      dest: filter_and_route_grows)

lemma classify_declarations_grows: "classify_declarations ds b = Inr b' \<Longrightarrow> grows b b'"
proof (induction ds arbitrary: b)
  case Nil
  then show ?case by (simp add: grows_refl)
next
  case (Cons d ds)
  then obtain b1 where b1: "classify_declaration d b = Inr b1"
    and rest: "classify_declarations ds b1 = Inr b'"
    by (auto split: sum.splits)
  from classify_declaration_grows [OF b1] Cons.IH [OF rest] show ?case
    by (rule grows_trans)
qed

lemma classify_declarations_member:
  assumes "classify_declarations ds b = Inr b'" and "d \<in> set ds"
  shows "\<exists>b1 b2. classify_declaration d b1 = Inr b2 \<and> grows b2 b'"
  using assms
proof (induction ds arbitrary: b)
  case Nil
  then show ?case by simp
next
  case (Cons x ds)
  then obtain b1 where b1: "classify_declaration x b = Inr b1"
    and rest: "classify_declarations ds b1 = Inr b'"
    by (auto split: sum.splits)
  show ?case
  proof (cases "d = x")
    case True
    with b1 classify_declarations_grows [OF rest] show ?thesis by blast
  next
    case False
    with Cons.prems(2) have "d \<in> set ds" by simp
    from Cons.IH [OF rest this] show ?thesis .
  qed
qed

lemma count_list_distinct: "distinct xs \<Longrightarrow> x \<in> set xs \<Longrightarrow> count_list xs x = 1"
  by (induction xs) auto

lemma sorted_list_of_finite:
  fixes A :: "string set"
  assumes "finite A"
  shows "sorted_wrt (<) (sorted_list_of_set A) \<and> set (sorted_list_of_set A) = A"
  using assms by (simp add: strict_sorted_list_of_set)

lemmas emitter_defs =
  constants_def constant_line_def prelude_def static_declaration_def
  EARTH_RADIUS_def CHALAKIM_PER_DAY_def BAVLI_DAF_YOMI_START_DAY_def untyped_constant_def

lemma foldl_append_concat: "foldl (\<lambda>buf x. buf @ f x) buf xs = buf @ concat (map f xs)"
  by (induction xs arbitrary: buf) simp_all

lemma constant_line_known:
  "type c \<in> {PyFloat, PyInt, PyDatetime} \<Longrightarrow> constant_line c = Inr (static_declaration c)"
  by (auto simp: constant_line_def static_declaration_def)

lemma constant_line_unknown:
  "type c \<notin> {PyFloat, PyInt, PyDatetime} \<Longrightarrow> constant_line c = Inl ValueError"
  by (cases "type c") (auto simp: constant_line_def)

lemma constant_line_error: "constant_line c = Inl e \<Longrightarrow> e = ValueError"
  by (cases "type c") (auto simp: constant_line_def split: if_splits)

lemma constants_loop_known:
  "\<forall>c\<in>set cs. type c \<in> {PyFloat, PyInt, PyDatetime} \<Longrightarrow>
     constants_loop cs buf = Inr (buf @ concat (map static_declaration cs))"
  by (induction cs arbitrary: buf) (simp_all add: constant_line_known)

lemma constants_loop_unknown:
  "\<exists>c\<in>set cs. type c \<notin> {PyFloat, PyInt, PyDatetime} \<Longrightarrow>
     constants_loop cs buf = Inl ValueError"
proof (induction cs arbitrary: buf)
  case Nil
  then show ?case by simp
next
  case (Cons c cs)
  show ?case
  proof (cases "constant_line c")
    case (Inl e)
    then show ?thesis using constant_line_error [OF Inl] by simp
  next
    case (Inr l)
    then have "type c \<in> {PyFloat, PyInt, PyDatetime}"
      using constant_line_unknown [of c] by auto
    with Cons.prems have "\<exists>x\<in>set cs. type x \<notin> {PyFloat, PyInt, PyDatetime}" by auto
    from Cons.IH [OF this] Inr show ?thesis by simp
  qed
qed

lemma constant_line_prefix:
  "constant_line c = Inr l \<Longrightarrow> prefix (''pub static _'' @ Constant.name c @ '': '') l"
  by (cases "type c") (auto simp: constant_line_def split: if_splits)

lemma constants_loop_lines:
  "constants_loop cs buf = Inr text \<Longrightarrow>
     \<exists>ls. text = buf @ concat ls \<and>
          list_all2 (\<lambda>c l. constant_line c = Inr l) cs ls"
proof (induction cs arbitrary: buf)
  case Nil
  then show ?case by simp
next
  case (Cons c cs)
  then obtain l where l: "constant_line c = Inr l"
    and rest: "constants_loop cs (buf @ l) = Inr text"
    by (auto split: sum.splits)
  from Cons.IH [OF rest] obtain ls where
    ls: "text = (buf @ l) @ concat ls" "list_all2 (\<lambda>c l. constant_line c = Inr l) cs ls"
    by blast
  then have "text = buf @ concat (l # ls) \<and> list_all2 (\<lambda>c l. constant_line c = Inr l) (c # cs) (l # ls)"
    using l by simp
  then show ?case by blast
qed

lemma transliterated_enums_to_rust_text:
  "transliterated_enums_to_rust pc n ms =
     enum_declaration n (map (\<lambda>m. (pc (transliterated_name m), TransliteratedEnumMember.val m)) ms)
       @ ''impl '' @ n @ '' {'' @ nl
       @ lookup_function ''en_string''
           (map (\<lambda>m. match_arm n (pc (transliterated_name m)) (transliterated_name m)) ms)
       @ lookup_function ''he_string''
           (map (\<lambda>m. match_arm n (pc (transliterated_name m)) (TransliteratedEnumMember.name m)) ms)
       @ ''}'' @ nl"
  by (simp add: transliterated_enums_to_rust_def Let_def foldl_append_concat enum_declaration_def
      lookup_function_def match_arm_def comp_def)

lemma plain_enum_to_rust_text:
  "plain_enum_to_rust pc buf e =
     buf @ enum_declaration (''_'' @ pc (Enum.name e))
             (map (\<lambda>m. (pc (EnumMember.name m), EnumMember.val m)) (members e))"
  by (simp add: plain_enum_to_rust_def Let_def foldl_append_concat enum_declaration_def comp_def)

lemma foldl_plain_enums:
  "foldl (plain_enum_to_rust pc) buf es =
     buf @ concat (map (\<lambda>e. enum_declaration (''_'' @ pc (Enum.name e))
                          (map (\<lambda>m. (pc (EnumMember.name m), EnumMember.val m)) (members e))) es)"
  by (induction es arbitrary: buf) (simp_all add: plain_enum_to_rust_text)

lemma str_int_14: "str_int 14 = ''14''"
  by (simp add: str_int_def str_nat.simps [of 14] str_nat.simps [of "Suc 0"])

section \<open>Properties of the method classifier\<close>

text \<open>
  C1. The claim: the enumeration printed between \<^verbatim>\<open>pub enum Calculations {\<close> and
  \<^verbatim>\<open>}\<close> holds exactly the names of the zero-argument bucket. The script prints
  \<^verbatim>\<open>zmanim_methods\<close>, the bucket of the declarations that take arguments, and never the
  bucket \<^verbatim>\<open>zmanim_calc_methods\<close> of the zero-argument ones. On a class with the
  zero-argument \<^verbatim>\<open>getSunrise\<close> and the one-argument \<^verbatim>\<open>getSunriseOffsetByDegrees\<close>,
  both public and returning \<^verbatim>\<open>Date\<close>, the printed enumeration has the variant
  \<^verbatim>\<open>SunriseOffsetByDegrees\<close> and lacks \<^verbatim>\<open>Sunrise\<close>.
\<close>

theorem enum_prints_argument_taking_bucket:
  "classify (compilation_unit
       [method_declaration ''getSunrise'' [public_modifier] (simple_type ''Date'') [],
        method_declaration ''getSunriseOffsetByDegrees'' [public_modifier] (simple_type ''Date'') [one_parameter]])
     = Inr \<lparr>zmanim_methods = {''SunriseOffsetByDegrees''}, zmanim_calc_methods = {''Sunrise''},
            other_methods = {}\<rparr>
   \<and> a_py (compilation_unit
       [method_declaration ''getSunrise'' [public_modifier] (simple_type ''Date'') [],
        method_declaration ''getSunriseOffsetByDegrees'' [public_modifier] (simple_type ''Date'') [one_parameter]])
     = Inr [''pub enum Calculations {'', ''    SunriseOffsetByDegrees,'', ''}'']"
  by (simp add: classifier_defs example_defs)



text \<open>
  C3, as amended. Every member of a declaration other than the node tag (the name, the
  modifiers, the return type, the parameters) may be absent: taking any one of them away
  from a well-shaped declaration that has its node tag leaves a declaration the loop body
  handles without error. The modifiers are among the defaulted members. Without its node
  tag a declaration raises \<^verbatim>\<open>KeyError\<close>, unless its name starts with \<^verbatim>\<open>set\<close> and the
  loop has skipped it before the tag is read. So on well-shaped declarations the run
  succeeds when every declaration has its tag or is so skipped, and fails with
  \<^verbatim>\<open>KeyError\<close> otherwise; it also fails with \<^verbatim>\<open>KeyError\<close> when the root has no
  \<^verbatim>\<open>types\<close> member.
\<close>

theorem absent_fields_defaulted_except_node:
  assumes "body_declarations data = Inr ds" and "list_all wf_declaration ds"
  shows "(\<forall>d\<in>set ds. \<forall>k. k \<noteq> ''node'' \<and> field d ''node'' \<noteq> None \<longrightarrow>
            (\<exists>b'. classify_declaration (without_field k d) b = Inr b'))
       \<and> (\<forall>d\<in>set ds. classify_declaration (without_field ''node'' d) b =
            (if set_named d then Inr b else Inl KeyError))
       \<and> ((\<forall>d\<in>set ds. field d ''node'' \<noteq> None \<or> set_named d) \<longrightarrow>
            (\<exists>b'. classify data = Inr b'))
       \<and> ((\<exists>d\<in>set ds. field d ''node'' = None \<and> \<not> set_named d) \<longrightarrow>
            classify data = Inl KeyError)
       \<and> classify (without_field ''types'' data) = Inl KeyError"
proof (intro conjI ballI allI impI)
  fix d k
  assume d: "d \<in> set ds" and k: "k \<noteq> ''node'' \<and> field d ''node'' \<noteq> None"
  from d assms(2) have "wf_declaration d" by (simp add: list_all_iff)
  then have "wf_declaration (without_field k d)"
    by (rule wf_declaration_without_field)
  moreover have "field (without_field k d) ''node'' \<noteq> None"
    using k by (auto simp: field_without_field)
  ultimately show "\<exists>b'. classify_declaration (without_field k d) b = Inr b'"
    by (rule classify_declaration_wf)
next
  fix d
  assume d: "d \<in> set ds"
  from d assms(2) have wf: "wf_declaration d" by (simp add: list_all_iff)
  have same_name: "declared_name (without_field ''node'' d) = declared_name d"
  proof -
    have "is_dict d" using wf by (simp add: wf_declaration_def)
    then show ?thesis
      by (simp add: declared_name_def py_get_JObj is_dict_without_field field_without_field)
  qed
  show "classify_declaration (without_field ''node'' d) b =
          (if set_named d then Inr b else Inl KeyError)"
    using classify_declaration_no_node [OF wf_declaration_without_field [OF wf], of "''node''" b]
    by (simp add: field_without_field set_named_def same_name)
next
  assume "\<forall>d\<in>set ds. field d ''node'' \<noteq> None \<or> set_named d"
  then show "\<exists>b'. classify data = Inr b'"
    using classify_declarations_all_tagged [OF assms(2)] by (simp add: classify_def assms(1))
next
  assume "\<exists>d\<in>set ds. field d ''node'' = None \<and> \<not> set_named d"
  then show "classify data = Inl KeyError"
    using classify_declarations_untagged [OF assms(2)] by (simp add: classify_def assms(1))
next
  show "classify (without_field ''types'' data) = Inl KeyError"
    using body_declarations_is_dict [OF assms(1)] by (rule classify_without_types)
qed

theorem absent_fields_witness:
  "body_declarations (compilation_unit [JObj [(''node'', JStr ''MethodDeclaration'')], JObj []])
     = Inr [JObj [(''node'', JStr ''MethodDeclaration'')], JObj []]
   \<and> list_all wf_declaration [JObj [(''node'', JStr ''MethodDeclaration'')], JObj [] :: unit json]
   \<and> classify_declaration (without_field ''modifiers'' (JObj [(''node'', JStr ''MethodDeclaration'')] :: unit json))
        empty_buckets = Inr empty_buckets
   \<and> classify (compilation_unit [JObj [(''node'', JStr ''MethodDeclaration'')], JObj []]) = Inl KeyError
   \<and> classify (without_field ''types'' (compilation_unit [JObj [(''node'', JStr ''MethodDeclaration'')], JObj []]))
        = Inl KeyError"
proof -
  let ?ds = "[JObj [(''node'', JStr ''MethodDeclaration'')], JObj [] :: unit json]"
  have h1: "body_declarations (compilation_unit ?ds) = Inr ?ds"
    by (simp add: classifier_defs example_defs)
  have h2: "list_all wf_declaration ?ds"
    by (simp add: shape_defs dict_lookup_def)
  have h3: "classify_declaration (without_field ''modifiers'' (JObj [(''node'', JStr ''MethodDeclaration'')] :: unit json))
        empty_buckets = Inr empty_buckets"
    by (simp add: classifier_defs)
  have h4: "\<exists>d\<in>set ?ds. field d ''node'' = None \<and> \<not> set_named d"
    by (simp add: shape_defs classifier_defs)
  from absent_fields_defaulted_except_node [OF h1 h2, of empty_buckets] h4
  show ?thesis using h1 h2 h3 by blast
qed

text \<open>
  C3 as stated says that a declaration without its modifiers list is not covered by a
  default. It is: a method declaration with no \<^verbatim>\<open>modifiers\<close> member is read as one
  with no modifiers, and the run ends normally.
\<close>

theorem missing_modifiers_counterexample:
  "field declaration_without_modifiers ''modifiers'' = None
   \<and> field declaration_without_modifiers ''node'' = Some (JStr ''MethodDeclaration'')
   \<and> classify (compilation_unit [declaration_without_modifiers]) = Inr empty_buckets"
  by (simp add: declaration_without_modifiers_def classifier_defs example_defs)

text \<open>
  C6, as amended. Each bucket is a set, and its rendering is the strictly ascending list
  of its elements in the lexicographic order of strings over the order of the characters
  (so case-sensitive): sorted, without duplicates, with exactly the elements of the
  bucket. For every declaration named \<^verbatim>\<open>getX\<close> that passes the filtering pipeline (a public
  method declaration without the deprecated marker), returns the simple type \<^verbatim>\<open>Date\<close>
  and has an empty parameter list, \<^verbatim>\<open>X\<close> occurs exactly once in the rendering of the
  zero-argument bucket, however many declarations of the run share the name.
\<close>

theorem buckets_sorted_and_deduplicated:
  assumes "body_declarations data = Inr ds" and "classify data = Inr b"
  shows "(sorted_wrt (<) (zmanim_calc_methods_sorted (sort_buckets b)) \<and>
          set (zmanim_calc_methods_sorted (sort_buckets b)) = zmanim_calc_methods b)
       \<and> (sorted_wrt (<) (zmanim_methods_sorted (sort_buckets b)) \<and>
          set (zmanim_methods_sorted (sort_buckets b)) = zmanim_methods b)
       \<and> (sorted_wrt (<) (other_methods_sorted (sort_buckets b)) \<and>
          set (other_methods_sorted (sort_buckets b)) = other_methods b)
       \<and> (\<forall>d\<in>set ds. \<forall>x.
            declared_name d = Inr (''get'' @ x) \<and> passes_pipeline d \<and>
            (case field d ''returnType2'' of None \<Rightarrow> False | Some rt \<Rightarrow> Date_type_node rt) \<and>
            field d ''parameters'' = Some (JArr [])
            \<longrightarrow> count_list (zmanim_calc_methods_sorted (sort_buckets b)) x = 1)"
proof -
  from assms have run: "classify_declarations ds empty_buckets = Inr b"
    by (simp add: classify_def)
  from classify_declarations_grows [OF run]
  have fin: "finite (zmanim_calc_methods b)" "finite (zmanim_methods b)" "finite (other_methods b)"
    by (simp_all add: grows_def empty_buckets_def)
  have lists:
    "sorted_wrt (<) (zmanim_calc_methods_sorted (sort_buckets b)) \<and>
       set (zmanim_calc_methods_sorted (sort_buckets b)) = zmanim_calc_methods b"
    "sorted_wrt (<) (zmanim_methods_sorted (sort_buckets b)) \<and>
       set (zmanim_methods_sorted (sort_buckets b)) = zmanim_methods b"
    "sorted_wrt (<) (other_methods_sorted (sort_buckets b)) \<and>
       set (other_methods_sorted (sort_buckets b)) = other_methods b"
    using fin by (simp_all add: sort_buckets_def sorted_list_of_finite)
  have once: "count_list (zmanim_calc_methods_sorted (sort_buckets b)) x = 1"
    if d: "d \<in> set ds" and name: "declared_name d = Inr (''get'' @ x)"
      and pass: "passes_pipeline d"
      and rt: "case field d ''returnType2'' of None \<Rightarrow> False | Some rt \<Rightarrow> Date_type_node rt"
      and ps: "field d ''parameters'' = Some (JArr [])" for d x
  proof -
    from rt obtain r where r: "field d ''returnType2'' = Some r" "Date_type_node r"
      by (auto split: option.splits)
    from classify_declarations_member [OF run d]
    obtain b1 b2 where step: "classify_declaration d b1 = Inr b2" and g: "grows b2 b"
      by blast
    have "filed_name d = x"
      by (simp add: filed_name_def name canonical_name_def)
    with passes_pipeline_route [OF pass, of b1] route_by_type_Date [OF r, of x b1] ps step
    have "x \<in> zmanim_calc_methods b2" by auto
    with g have "x \<in> zmanim_calc_methods b" by (auto simp: grows_def)
    with fin(1) show ?thesis
      by (simp add: sort_buckets_def count_list_distinct)
  qed
  from lists once show ?thesis by blast
qed

theorem buckets_sorted_witness:
  "body_declarations (compilation_unit
       [method_declaration ''getSunrise'' [public_modifier] (simple_type ''Date'') [],
        method_declaration ''getAlos72'' [public_modifier] (simple_type ''Date'') [],
        method_declaration ''getSunrise'' [public_modifier] (simple_type ''Date'') []])
     = Inr [method_declaration ''getSunrise'' [public_modifier] (simple_type ''Date'') [],
            method_declaration ''getAlos72'' [public_modifier] (simple_type ''Date'') [],
            method_declaration ''getSunrise'' [public_modifier] (simple_type ''Date'') []]
   \<and> classify (compilation_unit
       [method_declaration ''getSunrise'' [public_modifier] (simple_type ''Date'') [],
        method_declaration ''getAlos72'' [public_modifier] (simple_type ''Date'') [],
        method_declaration ''getSunrise'' [public_modifier] (simple_type ''Date'') []])
     = Inr \<lparr>zmanim_methods = {}, zmanim_calc_methods = {''Sunrise'', ''Alos72''}, other_methods = {}\<rparr>
   \<and> count_list
        (zmanim_calc_methods_sorted
          (sort_buckets \<lparr>zmanim_methods = {}, zmanim_calc_methods = {''Sunrise'', ''Alos72''},
                         other_methods = {}\<rparr>))
        ''Sunrise'' = 1"
proof -
  let ?d = "method_declaration ''getSunrise'' [public_modifier] (simple_type ''Date'') []"
  let ?ds = "[?d, method_declaration ''getAlos72'' [public_modifier] (simple_type ''Date'') [], ?d]"
  let ?b = "\<lparr>zmanim_methods = {}, zmanim_calc_methods = {''Sunrise'', ''Alos72''}, other_methods = {}\<rparr>"
  have h1: "body_declarations (compilation_unit ?ds) = Inr ?ds"
    by (simp add: classifier_defs example_defs)
  have h2: "classify (compilation_unit ?ds) = Inr ?b"
    by (simp add: classifier_defs example_defs insert_commute)
  have d: "?d \<in> set ?ds" by simp
  have q: "declared_name ?d = Inr (''get'' @ ''Sunrise'') \<and> passes_pipeline ?d \<and>
      (case field ?d ''returnType2'' of None \<Rightarrow> False | Some rt \<Rightarrow> Date_type_node rt) \<and>
      field ?d ''parameters'' = Some (JArr [])"
    by (simp add: example_defs shape_defs classifier_defs)
  from buckets_sorted_and_deduplicated [OF h1 h2] d q
  have "count_list (zmanim_calc_methods_sorted (sort_buckets ?b)) ''Sunrise'' = 1"
    by blast
  with h1 h2 show ?thesis by blast
qed

text \<open>
  C6 as stated asks this of every declaration named \<^verbatim>\<open>getX\<close> that returns \<^verbatim>\<open>Date\<close> and
  takes no parameters. A \<^verbatim>\<open>protected\<close> one is filtered out at line 34, and \<^verbatim>\<open>X\<close> is
  then in no bucket.
\<close>

theorem unqualified_getter_counterexample:
  "declared_name (method_declaration ''getSunrise'' [protected_modifier] (simple_type ''Date'') [])
     = Inr (''get'' @ ''Sunrise'')
   \<and> field (method_declaration ''getSunrise'' [protected_modifier] (simple_type ''Date'') [])
       ''returnType2'' = Some (simple_type ''Date'')
   \<and> Date_type_node (simple_type ''Date'')
   \<and> field (method_declaration ''getSunrise'' [protected_modifier] (simple_type ''Date'') [])
       ''parameters'' = Some (JArr [])
   \<and> classify (compilation_unit
       [method_declaration ''getSunrise'' [protected_modifier] (simple_type ''Date'') []])
     = Inr empty_buckets
   \<and> count_list (zmanim_calc_methods_sorted (sort_buckets empty_buckets)) ''Sunrise'' = 0"
  by (simp add: classifier_defs example_defs shape_defs protected_modifier_def)

text \<open>
  C7. A declaration whose modifiers list holds the deprecated marker annotation is placed
  in no bucket: whenever the loop body returns for it, the buckets are unchanged, whatever
  its other modifiers, its return type and its parameters are; and it does return, with
  the buckets unchanged, when the declaration is well-shaped and has its node tag.
\<close>

theorem deprecated_declaration_in_no_bucket:
  assumes "field d ''modifiers'' = Some (JArr ms)" and "list_ex deprecated_marker_node ms"
  shows "(\<forall>b'. classify_declaration d b = Inr b' \<longrightarrow> b' = b)
       \<and> (wf_declaration d \<and> field d ''node'' \<noteq> None \<longrightarrow> classify_declaration d b = Inr b)"
proof -
  from assms(1) have d: "is_dict d" by (cases d) auto
  have skip: "b' = b" if "classify_declaration d b = Inr b'" for b'
  proof -
    have mods: "py_get d ''modifiers'' (JArr []) = Inr (JArr ms)"
      by (simp add: py_get_JObj d assms(1))
    have scan: "dep" if "scan_modifiers ms False = Inr (q, dep)" for q dep
      using scan_modifiers_deprecated [OF that] assms(2) by simp
    from that show ?thesis
      by (auto simp: classify_declaration_def filter_and_route_def mods
          split: sum.splits if_splits dest: scan)
  qed
  moreover have "classify_declaration d b = Inr b"
    if "wf_declaration d \<and> field d ''node'' \<noteq> None"
  proof -
    from that obtain b' where "classify_declaration d b = Inr b'"
      using classify_declaration_wf by blast
    with skip show ?thesis by simp
  qed
  ultimately show ?thesis by blast
qed

theorem deprecated_declaration_witness:
  "field (method_declaration ''getSunrise'' [public_modifier, deprecated_marker] (simple_type ''Date'') [])
       ''modifiers'' = Some (JArr [public_modifier, deprecated_marker])
   \<and> list_ex deprecated_marker_node [public_modifier, deprecated_marker]
   \<and> wf_declaration (method_declaration ''getSunrise'' [public_modifier, deprecated_marker] (simple_type ''Date'') [])
   \<and> classify_declaration
        (method_declaration ''getSunrise'' [public_modifier, deprecated_marker] (simple_type ''Date'') [])
        empty_buckets = Inr empty_buckets"
proof -
  let ?ms = "[public_modifier, deprecated_marker]"
  let ?d = "method_declaration ''getSunrise'' ?ms (simple_type ''Date'') []"
  have h1: "field ?d ''modifiers'' = Some (JArr ?ms)"
    by (simp add: example_defs dict_lookup_def)
  have h2: "list_ex deprecated_marker_node ?ms"
    by (simp add: example_defs shape_defs dict_lookup_def)
  have h3: "wf_declaration ?d"
    by (simp add: example_defs shape_defs dict_lookup_def)
  have h4: "field ?d ''node'' \<noteq> None"
    by (simp add: example_defs dict_lookup_def)
  from deprecated_declaration_in_no_bucket [OF h1 h2, of empty_buckets] h3 h4
  show ?thesis using h1 h2 by blast
qed

text \<open>
  C8. A declaration whose name starts with \<^verbatim>\<open>set\<close> contributes to no bucket: the loop
  body leaves the buckets as they are, so the run over a list of declarations is the run
  over the list without that declaration, and a name is in the output only if another
  declaration puts it there.
\<close>

theorem set_prefixed_declaration_contributes_nothing:
  assumes "declared_name d = Inr n" and "prefix ''set'' n"
  shows "classify_declaration d b = Inr b
       \<and> classify_declarations (ds @ d # ds') b0 = classify_declarations (ds @ ds') b0"
proof -
  have skip: "classify_declaration d x = Inr x" for x
    using assms by (simp add: classify_declaration_def)
  then show ?thesis
    by (simp add: classify_declarations_append split: sum.splits)
qed

theorem set_prefixed_declaration_witness:
  "declared_name (method_declaration ''setSunrise'' [public_modifier] (simple_type ''Date'') []) = Inr ''setSunrise''
   \<and> prefix ''set'' ''setSunrise''
   \<and> classify_declaration (method_declaration ''setSunrise'' [public_modifier] (simple_type ''Date'') [])
        empty_buckets = Inr empty_buckets
   \<and> classify_declarations
        ([] @ method_declaration ''setSunrise'' [public_modifier] (simple_type ''Date'') [] # [])
        empty_buckets = Inr empty_buckets"
proof -
  let ?d = "method_declaration ''setSunrise'' [public_modifier] (simple_type ''Date'') []"
  have h1: "declared_name ?d = Inr ''setSunrise''"
    by (simp add: classifier_defs example_defs)
  have h2: "prefix ''set'' ''setSunrise''"
    by simp
  from set_prefixed_declaration_contributes_nothing
         [OF h1 h2, where b = empty_buckets and ds = "[]" and ds' = "[]" and ?b0.0 = empty_buckets]
  show ?thesis using h1 h2 by simp
qed

section \<open>Properties of the declaration emitter\<close>

text \<open>
  C4. When every record of the table has one of the three known types, \<^verbatim>\<open>constants\<close>
  writes the prelude followed by exactly one static declaration per record, in table
  order: for a real the literal as it stands annotated \<^verbatim>\<open>f64\<close>, for an integer the literal
  annotated \<^verbatim>\<open>i64\<close>, for an instant the expression
  \<^verbatim>\<open>DateTime::from_timestamp_millis(literal).unwrap()\<close>, whose \<^verbatim>\<open>unwrap\<close> aborts at
  initialization when the milliseconds are out of range.
\<close>

theorem constants_one_static_declaration_each:
  assumes "\<forall>c\<in>set cs. type c \<in> {PyFloat, PyInt, PyDatetime}"
  shows "constants cs = Inr (prelude @ concat (map static_declaration cs))"
  using constants_loop_known [OF assms] by (simp add: constants_def)

theorem constants_witness:
  "type EARTH_RADIUS \<in> {PyFloat, PyInt, PyDatetime}
   \<and> type CHALAKIM_PER_DAY \<in> {PyFloat, PyInt, PyDatetime}
   \<and> type BAVLI_DAF_YOMI_START_DAY \<in> {PyFloat, PyInt, PyDatetime}
   \<and> constants [EARTH_RADIUS, CHALAKIM_PER_DAY, BAVLI_DAF_YOMI_START_DAY] =
       Inr (prelude
            @ ''pub static _EARTH_RADIUS: f64 = 6356.9;'' @ nl
            @ ''pub static _CHALAKIM_PER_DAY: i64 = 25920;'' @ nl
            @ ''pub static _BAVLI_DAF_YOMI_START_DAY: DateTime<Utc> = DateTime::from_timestamp_millis(-1461369600000).unwrap();'' @ nl)"
proof -
  have h: "\<forall>c\<in>set [EARTH_RADIUS, CHALAKIM_PER_DAY, BAVLI_DAF_YOMI_START_DAY].
             type c \<in> {PyFloat, PyInt, PyDatetime}"
    by (simp add: emitter_defs)
  from constants_one_static_declaration_each [OF h] h show ?thesis
    by (simp add: static_declaration_def EARTH_RADIUS_def CHALAKIM_PER_DAY_def
        BAVLI_DAF_YOMI_START_DAY_def)
qed

text \<open>
  C5. The text emitted for a transliterated-enum table is the enumeration declaration,
  then an \<^verbatim>\<open>impl\<close> block with the two lookup functions \<^verbatim>\<open>en_string\<close> and
  \<^verbatim>\<open>he_string\<close>. The match of each holds exactly one arm per member of the table, in
  table order, keyed by the identifier-cased transliterated label (the variant the
  enumeration declares for that member), and nothing else: no default arm. The arm gives
  the transliterated string in the first function and the native string in the second.
\<close>

theorem lookup_functions_one_arm_per_member:
  "transliterated_enums_to_rust pc n ms =
     enum_declaration n (map (\<lambda>m. (pc (transliterated_name m), TransliteratedEnumMember.val m)) ms)
       @ ''impl '' @ n @ '' {'' @ nl
       @ lookup_function ''en_string''
           (map (\<lambda>m. match_arm n (pc (transliterated_name m)) (transliterated_name m)) ms)
       @ lookup_function ''he_string''
           (map (\<lambda>m. match_arm n (pc (transliterated_name m)) (TransliteratedEnumMember.name m)) ms)
       @ ''}'' @ nl"
  by (rule transliterated_enums_to_rust_text)

text \<open>
  C9. When some record of the table has a type that is none of real, integer and instant,
  \<^verbatim>\<open>constants\<close> raises \<^verbatim>\<open>ValueError\<close>: the command ends without a result, so no
  declaration is written, for that record or any other.
\<close>

theorem unknown_type_aborts_constants:
  assumes "c \<in> set cs" and "type c \<notin> {PyFloat, PyInt, PyDatetime}"
  shows "constants cs = Inl ValueError"
  using constants_loop_unknown [of cs prelude] assms by (auto simp: constants_def)

theorem unknown_type_witness:
  "untyped_constant \<in> set [EARTH_RADIUS, untyped_constant, CHALAKIM_PER_DAY]
   \<and> type untyped_constant \<notin> {PyFloat, PyInt, PyDatetime}
   \<and> constants [EARTH_RADIUS, untyped_constant, CHALAKIM_PER_DAY] = Inl ValueError"
proof -
  have h1: "untyped_constant \<in> set [EARTH_RADIUS, untyped_constant, CHALAKIM_PER_DAY]"
    by simp
  have h2: "type untyped_constant \<notin> {PyFloat, PyInt, PyDatetime}"
    by (simp add: untyped_constant_def)
  from unknown_type_aborts_constants [OF h1 h2] h1 h2 show ?thesis by blast
qed

text \<open>
  C10. Whenever \<^verbatim>\<open>constants\<close> writes its file, the text is the prelude followed by one
  line per record of the table, in table order, and the line of a record starts
  \<^verbatim>\<open>pub static _NAME: \<close> with the name of that record: every constant declaration written
  has the underscore before its name (and so has every line the loop body makes).
  \<^verbatim>\<open>enums\<close> declares every plain enumeration under the name \<^verbatim>\<open>_\<close> followed by the
  identifier-cased name of the record, and then emits the seven transliterated
  enumerations under the names \<^verbatim>\<open>Parsha\<close>, \<^verbatim>\<open>JewishHoliday\<close>, \<^verbatim>\<open>DayOfWeek\<close>,
  \<^verbatim>\<open>JewishMonth\<close>, \<^verbatim>\<open>YearLengthType\<close>, \<^verbatim>\<open>BavliTractate\<close> and \<^verbatim>\<open>YerushalmiTractate\<close>;
  the text of a transliterated enumeration starts with the declaration
  \<^verbatim>\<open>pub enum NAME {\<close> of the name as given, with no underscore put before it.
\<close>

theorem underscore_prefix_on_constants_and_plain_enums:
  "(\<forall>out. constants cs = Inr out \<longrightarrow>
      (\<exists>ls. out = prelude @ concat ls \<and>
            list_all2 (\<lambda>c l. constant_line c = Inr l \<and>
                              prefix (''pub static _'' @ Constant.name c @ '': '') l) cs ls))
   \<and> (\<forall>l. constant_line c = Inr l \<longrightarrow> prefix (''pub static _'' @ Constant.name c @ '': '') l)
   \<and> fst (enums pc t) =
       prelude
       @ concat (map (\<lambda>e. enum_declaration (''_'' @ pc (Enum.name e))
                       (map (\<lambda>m. (pc (EnumMember.name m), EnumMember.val m)) (members e)))
                  (ENUMS t))
       @ transliterated_enums_to_rust pc ''Parsha'' (PARSHAS t)
       @ transliterated_enums_to_rust pc ''JewishHoliday'' (JEWISH_HOLIDAYS t)
       @ transliterated_enums_to_rust pc ''DayOfWeek'' (DAY_OF_WEEKS t)
       @ transliterated_enums_to_rust pc ''JewishMonth'' (HEBREW_MONTHS t)
       @ transliterated_enums_to_rust pc ''YearLengthType'' (YEAR_LENGTH_TYPES t)
       @ transliterated_enums_to_rust pc ''BavliTractate'' (BAVLI_TRACTATES t)
       @ transliterated_enums_to_rust pc ''YerushalmiTractate'' (YERUSHALMI_TRACTATES t)
   \<and> prefix (derive_line @ repr_line @ ''pub enum '' @ n @ '' {'' @ nl)
        (transliterated_enums_to_rust pc n ms)"
proof (intro conjI allI impI)
  fix out
  assume "constants cs = Inr out"
  then obtain ls where ls: "out = prelude @ concat ls"
    "list_all2 (\<lambda>c l. constant_line c = Inr l) cs ls"
    using constants_loop_lines [of cs prelude out] by (auto simp: constants_def)
  from ls(2) have "list_all2 (\<lambda>c l. constant_line c = Inr l \<and>
                              prefix (''pub static _'' @ Constant.name c @ '': '') l) cs ls"
    by (rule list_all2_mono) (blast intro: constant_line_prefix)
  with ls(1) show "\<exists>ls. out = prelude @ concat ls \<and>
            list_all2 (\<lambda>c l. constant_line c = Inr l \<and>
                              prefix (''pub static _'' @ Constant.name c @ '': '') l) cs ls"
    by blast
next
  fix l
  assume "constant_line c = Inr l"
  then show "prefix (''pub static _'' @ Constant.name c @ '': '') l"
    by (rule constant_line_prefix)
next
  show "fst (enums pc t) =
       prelude
       @ concat (map (\<lambda>e. enum_declaration (''_'' @ pc (Enum.name e))
                       (map (\<lambda>m. (pc (EnumMember.name m), EnumMember.val m)) (members e)))
                  (ENUMS t))
       @ transliterated_enums_to_rust pc ''Parsha'' (PARSHAS t)
       @ transliterated_enums_to_rust pc ''JewishHoliday'' (JEWISH_HOLIDAYS t)
       @ transliterated_enums_to_rust pc ''DayOfWeek'' (DAY_OF_WEEKS t)
       @ transliterated_enums_to_rust pc ''JewishMonth'' (HEBREW_MONTHS t)
       @ transliterated_enums_to_rust pc ''YearLengthType'' (YEAR_LENGTH_TYPES t)
       @ transliterated_enums_to_rust pc ''BavliTractate'' (BAVLI_TRACTATES t)
       @ transliterated_enums_to_rust pc ''YerushalmiTractate'' (YERUSHALMI_TRACTATES t)"
    by (simp add: enums_def Let_def foldl_plain_enums)
next
  show "prefix (derive_line @ repr_line @ ''pub enum '' @ n @ '' {'' @ nl)
        (transliterated_enums_to_rust pc n ms)"
    by (simp add: transliterated_enums_to_rust_text enum_declaration_def)
qed

theorem underscore_prefix_witness:
  "constants [EARTH_RADIUS, CHALAKIM_PER_DAY] =
     Inr (prelude @ ''pub static _EARTH_RADIUS: f64 = 6356.9;'' @ nl
                  @ ''pub static _CHALAKIM_PER_DAY: i64 = 25920;'' @ nl)
   \<and> list_all2 (\<lambda>c l. constant_line c = Inr l \<and>
                       prefix (''pub static _'' @ Constant.name c @ '': '') l)
        [EARTH_RADIUS, CHALAKIM_PER_DAY]
        [''pub static _EARTH_RADIUS: f64 = 6356.9;'' @ nl,
         ''pub static _CHALAKIM_PER_DAY: i64 = 25920;'' @ nl]"
proof -
  let ?l1 = "''pub static _EARTH_RADIUS: f64 = 6356.9;'' @ nl"
  let ?l2 = "''pub static _CHALAKIM_PER_DAY: i64 = 25920;'' @ nl"
  have h: "constants [EARTH_RADIUS, CHALAKIM_PER_DAY] = Inr (prelude @ ?l1 @ ?l2)"
    by (simp add: emitter_defs)
  from underscore_prefix_on_constants_and_plain_enums [of "[EARTH_RADIUS, CHALAKIM_PER_DAY]"] h
  obtain ls where ls: "prelude @ ?l1 @ ?l2 = prelude @ concat ls"
    "list_all2 (\<lambda>c l. constant_line c = Inr l \<and>
        prefix (''pub static _'' @ Constant.name c @ '': '') l) [EARTH_RADIUS, CHALAKIM_PER_DAY] ls"
    by blast
  from ls(2) obtain a b where ab: "ls = [a, b]"
    "constant_line EARTH_RADIUS = Inr a" "constant_line CHALAKIM_PER_DAY = Inr b"
    by (auto simp: list_all2_Cons1)
  then have "a = ?l1" "b = ?l2"
    by (simp_all add: emitter_defs)
  with ab(1) ls(2) h show ?thesis by simp
qed

section \<open>Worked examples\<close>

text \<open>
  The text emitted for a table that holds the single member \<^verbatim>\<open>Bo\<close>, with the identity in
  the place of \<^verbatim>\<open>pascalcase\<close> (which leaves \<^verbatim>\<open>Bo\<close> as it is): the variant \<^verbatim>\<open>Bo\<close> has the
  discriminant 14, and each lookup function has the one arm for it.
\<close>

lemma transliterated_enum_example:
  \<open>transliterated_enums_to_rust (\<lambda>s. s) ''Parsha'' [Bo] =
     ''#[derive(Debug, PartialEq, Eq, Clone, Copy, IntoPrimitive, TryFromPrimitive)]'' @ nl
     @ ''#[repr(i64)]'' @ nl
     @ ''pub enum Parsha {'' @ nl
     @ ''    Bo = 14,'' @ nl
     @ ''}'' @ nl
     @ ''impl Parsha {'' @ nl
     @ ''pub fn en_string(&self) -> &str { match self {    Parsha::Bo => "Bo",'' @ nl
     @ ''}}'' @ nl
     @ ''pub fn he_string(&self) -> &str { match self {    Parsha::Bo => "''
     @ [CHR 0xD7, CHR 0x91, CHR 0xD7, CHR 0x90] @ ''",'' @ nl
     @ ''}}'' @ nl
     @ ''}'' @ nl\<close>
  by (simp add: transliterated_enums_to_rust_def Bo_def derive_line_def repr_line_def str_int_14)

text \<open>The order of the rendering is case-sensitive: capitals come before small letters.\<close>

lemma sorted_case_sensitive:
  "sorted_list_of_set {''alos'', ''Sunrise'', ''Alos''} = [''Alos'', ''Sunrise'', ''alos'']"
  by code_simp

end
